theory Spec2Isabelle
  imports Complex_Main "HOL-Library.Multiset"
begin

section \<open>Dictionary coherence and distinctiveness over a word embedding\<close>

text \<open>
  The notebook \<^verbatim>\<open>notebooks/wem_hackathon_TextXD18.ipynb\<close> defines two scorers,
  \<^verbatim>\<open>dict_cohere(thisdict, wem_model)\<close> and \<^verbatim>\<open>dict_distinct(dict1, dict2, wem_model)\<close>.
  Both walk a Python list of terms, ask the embedding model for the cosine distances of
  the current term to a list of terms, and average.

  Floating-point numbers are idealised: a finite float is a real number and rounding is
  not modelled. What is kept of IEEE arithmetic is the one thing the control flow of the
  scorers depends on: dividing a numpy float by zero raises nothing and yields
  \<^verbatim>\<open>nan\<close> or \<^verbatim>\<open>inf\<close>, whereas dividing a Python \<^verbatim>\<open>int\<close> by zero raises
  \<^verbatim>\<open>ZeroDivisionError\<close>.
\<close>

subsection \<open>Errors and numbers\<close>

datatype error = ZeroDivisionError | KeyError string

text \<open>
  A numpy floating value: a finite one, or one of \<^verbatim>\<open>nan\<close>, \<^verbatim>\<open>inf\<close>, \<^verbatim>\<open>-inf\<close>.
  The three are kept as one value \<open>NonFinite\<close>: every operation the scorers apply
  (adding, dividing by a finite number, subtracting from one) maps a non-finite operand to
  a non-finite result.
\<close>

datatype npfloat = Finite real | NonFinite

fun np_add :: "npfloat \<Rightarrow> npfloat \<Rightarrow> npfloat" where
  "np_add (Finite a) (Finite b) = Finite (a + b)"
| "np_add _ _ = NonFinite"

text \<open>numpy float divided by a finite number: a zero divisor gives \<^verbatim>\<open>nan\<close> or \<^verbatim>\<open>inf\<close>.\<close>

fun np_div :: "npfloat \<Rightarrow> real \<Rightarrow> npfloat" where
  "np_div (Finite a) b = (if b = 0 then NonFinite else Finite (a / b))"
| "np_div NonFinite b = NonFinite"

fun np_sub :: "real \<Rightarrow> npfloat \<Rightarrow> npfloat" where
  "np_sub a (Finite b) = Finite (a - b)"
| "np_sub a NonFinite = NonFinite"

text \<open>\<^verbatim>\<open>ndarray.sum()\<close>: the sum of an empty array is \<^verbatim>\<open>0.0\<close>.\<close>

fun np_sum :: "npfloat list \<Rightarrow> npfloat" where
  "np_sum [] = Finite 0"
| "np_sum (x # xs) = np_add x (np_sum xs)"

text \<open>
  The values the local variables of the scorers hold: the Python \<^verbatim>\<open>int\<close> they are
  initialised with, a Python \<^verbatim>\<open>float\<close>, or a numpy float.
\<close>

datatype pynum = PyInt int | PyFloat real | NpFloat npfloat

text \<open>\<^verbatim>\<open>acc += x\<close> for a numpy float \<open>x\<close>: the result is a numpy float.\<close>

fun add_np :: "pynum \<Rightarrow> npfloat \<Rightarrow> pynum" where
  "add_np (PyInt a) x = NpFloat (np_add (Finite (of_int a)) x)"
| "add_np (PyFloat a) x = NpFloat (np_add (Finite a) x)"
| "add_np (NpFloat a) x = NpFloat (np_add a x)"

text \<open>
  \<^verbatim>\<open>acc / len(xs)\<close>: true division by a list length. Python's own numbers raise on a
  zero divisor, a numpy float does not.
\<close>

fun truediv_len :: "pynum \<Rightarrow> nat \<Rightarrow> error + pynum" where
  "truediv_len (PyInt a) n =
     (if n = 0 then Inl ZeroDivisionError else Inr (PyFloat (of_int a / of_nat n)))"
| "truediv_len (PyFloat a) n =
     (if n = 0 then Inl ZeroDivisionError else Inr (PyFloat (a / of_nat n)))"
| "truediv_len (NpFloat a) n = Inr (NpFloat (np_div a (of_nat n)))"

text \<open>\<^verbatim>\<open>1 - x\<close>.\<close>

fun one_minus :: "pynum \<Rightarrow> pynum" where
  "one_minus (PyInt a) = PyInt (1 - a)"
| "one_minus (PyFloat a) = PyFloat (1 - a)"
| "one_minus (NpFloat a) = NpFloat (np_sub 1 a)"

subsection \<open>The embedding model\<close>

text \<open>
  Modelled from the spec: the embedding model (gensim's \<^verbatim>\<open>KeyedVectors\<close>, loaded in the
  notebook with \<^verbatim>\<open>load_word2vec_format\<close>) and its methods \<^verbatim>\<open>word_vec\<close>,
  \<^verbatim>\<open>cosine_similarities\<close> and \<^verbatim>\<open>distances\<close> are library code outside the repository.
  The spec describes the capability as a vocabulary membership test, a vector lookup by
  term and a batch distance \<open>1 - cosine_similarity\<close>. The model is the vocabulary in
  index order, each word with its row of the vector matrix.
\<close>

type_synonym wem_model = "(string \<times> real list) list"

definition vocab :: "wem_model \<Rightarrow> string \<rightharpoonup> real list" where
  "vocab wem_model = map_of wem_model"

definition vectors :: "wem_model \<Rightarrow> real list list" where
  "vectors wem_model = map snd wem_model"

text \<open>\<^verbatim>\<open>numpy.dot\<close> of two vectors and \<^verbatim>\<open>numpy.linalg.norm\<close>.\<close>

definition dot :: "real list \<Rightarrow> real list \<Rightarrow> real" where
  "dot u v = sum_list (map (\<lambda>(x, y). x * y) (zip u v))"

definition norm_vec :: "real list \<Rightarrow> real" where
  "norm_vec v = sqrt (sum_list (map (\<lambda>x. x\<^sup>2) v))"

text \<open>
  Modelled from the spec: \<^verbatim>\<open>word_vec(word)\<close>, the vector lookup; a word outside the
  vocabulary raises \<^verbatim>\<open>KeyError\<close>.
\<close>

definition word_vec :: "wem_model \<Rightarrow> string \<Rightarrow> error + real list" where
  "word_vec wem_model word =
     (case vocab wem_model word of None \<Rightarrow> Inl (KeyError word) | Some v \<Rightarrow> Inr v)"

text \<open>The rows of a list of words, in order; the first unknown word raises.\<close>

fun other_rows :: "wem_model \<Rightarrow> string list \<Rightarrow> error + real list list" where
  "other_rows wem_model [] = Inr []"
| "other_rows wem_model (w # ws) =
     (case vocab wem_model w of
        None \<Rightarrow> Inl (KeyError w)
      | Some v \<Rightarrow>
          (case other_rows wem_model ws of Inl e \<Rightarrow> Inl e | Inr vs \<Rightarrow> Inr (v # vs)))"

text \<open>
  Modelled from the spec: \<^verbatim>\<open>cosine_similarities(vector_1, vectors_all)\<close>, for each row
  the dot product with \<open>vector_1\<close> divided by the product of the two norms. The division
  is numpy's: a zero norm gives \<^verbatim>\<open>nan\<close>.
\<close>

definition cosine_similarities :: "real list \<Rightarrow> real list list \<Rightarrow> npfloat list" where
  "cosine_similarities vector_1 vectors_all =
     map (\<lambda>row. np_div (Finite (dot row vector_1)) (norm_vec vector_1 * norm_vec row))
       vectors_all"

text \<open>
  Modelled from the spec: \<^verbatim>\<open>distances(word, other_words)\<close>, the batch distance
  \<open>1 - cosine_similarity\<close> from \<open>word\<close> to each of \<open>other_words\<close>. As in gensim, an
  empty \<open>other_words\<close> stands for the whole vocabulary.
\<close>

definition distances :: "wem_model \<Rightarrow> string \<Rightarrow> string list \<Rightarrow> error + npfloat list" where
  "distances wem_model word other_words =
     (case word_vec wem_model word of
        Inl e \<Rightarrow> Inl e
      | Inr input_vector \<Rightarrow>
          (case (if other_words = [] then Inr (vectors wem_model)
                 else other_rows wem_model other_words) of
             Inl e \<Rightarrow> Inl e
           | Inr other_vectors \<Rightarrow>
               Inr (map (np_sub 1) (cosine_similarities input_vector other_vectors))))"

subsection \<open>The scorers\<close>

text \<open>
  Python passes a list by reference. The heap maps a reference to the list it holds; a
  scorer takes references and the heap, and returns its result (or the exception it
  raises) together with the heap it leaves.
\<close>

type_synonym ref = nat
type_synonym heap = "ref \<Rightarrow> string list"

text \<open>
  \<^verbatim>\<open>for word in thisdict:\<close> of \<open>dict_cohere\<close>. The list iterator keeps an index and
  reads the list anew at every step. The body is
  \<^verbatim>\<open>word_avg_dist = (wem_model.distances(word, other_words=thisdict).sum())/len(thisdict)\<close>
  and \<^verbatim>\<open>word_avg_dists += word_avg_dist\<close>.
\<close>

function cohere_loop ::
  "ref \<Rightarrow> wem_model \<Rightarrow> nat \<Rightarrow> pynum \<Rightarrow> heap \<Rightarrow> (error + pynum) \<times> heap" where
  "cohere_loop thisdict wem_model i word_avg_dists h =
     (if i < length (h thisdict) then
        (case distances wem_model (h thisdict ! i) (h thisdict) of
           Inl e \<Rightarrow> (Inl e, h)
         | Inr ds \<Rightarrow>
             cohere_loop thisdict wem_model (Suc i)
               (add_np word_avg_dists (np_div (np_sum ds) (of_nat (length (h thisdict))))) h)
      else (Inr word_avg_dists, h))"
  by pat_completeness auto
termination
  by (relation "measure (\<lambda>(thisdict, wem_model, i, acc, h). length (h thisdict) - i)") auto

text \<open>
  \<open>dict_cohere\<close>: \<^verbatim>\<open>word_avg_dists = 0\<close>, the loop, then
  \<^verbatim>\<open>dict_avg_sim = 1 - word_avg_dists/len(thisdict)\<close>.
\<close>

definition dict_cohere :: "ref \<Rightarrow> wem_model \<Rightarrow> heap \<Rightarrow> (error + pynum) \<times> heap" where
  "dict_cohere thisdict wem_model h =
     (case cohere_loop thisdict wem_model 0 (PyInt 0) h of
        (Inl e, h') \<Rightarrow> (Inl e, h')
      | (Inr word_avg_dists, h') \<Rightarrow>
          (case truediv_len word_avg_dists (length (h' thisdict)) of
             Inl e \<Rightarrow> (Inl e, h')
           | Inr q \<Rightarrow> (Inr (one_minus q), h')))"

text \<open>
  \<^verbatim>\<open>for word in dict1:\<close> of \<open>dict_distinct\<close>, with the body
  \<^verbatim>\<open>word_avg_dist = (wem_model.distances(word, other_words=dict2).sum())/len(dict2)\<close>
  and \<^verbatim>\<open>word_avg_dists += word_avg_dist\<close>.
\<close>

function distinct_loop ::
  "ref \<Rightarrow> ref \<Rightarrow> wem_model \<Rightarrow> nat \<Rightarrow> pynum \<Rightarrow> heap \<Rightarrow> (error + pynum) \<times> heap" where
  "distinct_loop dict1 dict2 wem_model i word_avg_dists h =
     (if i < length (h dict1) then
        (case distances wem_model (h dict1 ! i) (h dict2) of
           Inl e \<Rightarrow> (Inl e, h)
         | Inr ds \<Rightarrow>
             distinct_loop dict1 dict2 wem_model (Suc i)
               (add_np word_avg_dists (np_div (np_sum ds) (of_nat (length (h dict2))))) h)
      else (Inr word_avg_dists, h))"
  by pat_completeness auto
termination
  by (relation "measure (\<lambda>(dict1, dict2, wem_model, i, acc, h). length (h dict1) - i)") auto

text \<open>
  \<open>dict_distinct\<close>: \<^verbatim>\<open>word_avg_dists = 0\<close>, the loop, then
  \<^verbatim>\<open>dicts_avg_dist = word_avg_dists/len(dict1)\<close>.
\<close>

definition dict_distinct ::
  "ref \<Rightarrow> ref \<Rightarrow> wem_model \<Rightarrow> heap \<Rightarrow> (error + pynum) \<times> heap" where
  "dict_distinct dict1 dict2 wem_model h =
     (case distinct_loop dict1 dict2 wem_model 0 (PyInt 0) h of
        (Inl e, h') \<Rightarrow> (Inl e, h')
      | (Inr word_avg_dists, h') \<Rightarrow>
          (case truediv_len word_avg_dists (length (h' dict1)) of
             Inl e \<Rightarrow> (Inl e, h')
           | Inr q \<Rightarrow> (Inr q, h')))"

subsection \<open>The loops on a list value\<close>

text \<open>
  Both loops read the heap and never write it, so each is the same walk over a list
  value: the terms still to visit, the list the distances are taken to, and the
  accumulator.
\<close>

fun avg_iter :: "wem_model \<Rightarrow> string list \<Rightarrow> string list \<Rightarrow> pynum \<Rightarrow> error + pynum" where
  "avg_iter m others [] acc = Inr acc"
| "avg_iter m others (w # ws) acc =
     (case distances m w others of
        Inl e \<Rightarrow> Inl e
      | Inr ds \<Rightarrow>
          avg_iter m others ws (add_np acc (np_div (np_sum ds) (of_nat (length others)))))"

subsection \<open>What the specification says the scorers compute\<close>

text \<open>
  The cosine distance of two vectors, \<open>1 - cosine_similarity\<close>, and the distance of two
  terms of the vocabulary. It is not a number when one of the vectors is zero.
\<close>

definition cosine_distance :: "real list \<Rightarrow> real list \<Rightarrow> npfloat" where
  "cosine_distance u v = np_sub 1 (np_div (Finite (dot v u)) (norm_vec u * norm_vec v))"

definition distance :: "wem_model \<Rightarrow> string \<Rightarrow> string \<Rightarrow> npfloat" where
  "distance m s t =
     (case vocab m s of
        None \<Rightarrow> NonFinite
      | Some u \<Rightarrow> (case vocab m t of None \<Rightarrow> NonFinite | Some v \<Rightarrow> cosine_distance u v))"

text \<open>The mean of a list of values: their sum divided by the full length of the list.\<close>

definition np_mean :: "npfloat list \<Rightarrow> npfloat" where
  "np_mean xs = np_div (np_sum xs) (of_nat (length xs))"

text \<open>The mean distance from one term to every term of a list.\<close>

definition mean_distance :: "wem_model \<Rightarrow> string \<Rightarrow> string list \<Rightarrow> npfloat" where
  "mean_distance m s ts = np_mean (map (distance m s) ts)"

text \<open>
  Spec 4.2: for each term of the first set its mean distance to every term of the second
  set, averaged over the first set, returned as it is.
\<close>

definition spec_distinct :: "wem_model \<Rightarrow> string list \<Rightarrow> string list \<Rightarrow> npfloat" where
  "spec_distinct m dict1 dict2 = np_mean (map (\<lambda>s. mean_distance m s dict2) dict1)"

text \<open>
  Spec 4.1: for each term its mean distance to every term of the set, itself included,
  the mean of these means over the set, and one minus that.
\<close>

definition spec_cohere :: "wem_model \<Rightarrow> string list \<Rightarrow> npfloat" where
  "spec_cohere m thisdict = np_sub 1 (np_mean (map (\<lambda>s. mean_distance m s thisdict) thisdict))"

text \<open>A list of terms is known to the model when each term is in the vocabulary.\<close>

definition known :: "wem_model \<Rightarrow> string list \<Rightarrow> bool" where
  "known m ts = list_all (\<lambda>t. vocab m t \<noteq> None) ts"

text \<open>The first term of a list that the vocabulary lacks.\<close>

definition first_unknown :: "wem_model \<Rightarrow> string list \<Rightarrow> string option" where
  "first_unknown m ts = find (\<lambda>t. vocab m t = None) ts"

text \<open>
  A list of terms has defined distances when each term is in the vocabulary with a vector
  that is not the zero vector, so that its cosine similarity to any such vector is a
  number.
\<close>

definition nonzero :: "wem_model \<Rightarrow> string list \<Rightarrow> bool" where
  "nonzero m ts =
     list_all (\<lambda>t. case vocab m t of None \<Rightarrow> False | Some v \<Rightarrow> norm_vec v \<noteq> 0) ts"







section \<open>Properties\<close>

declare cohere_loop.simps [simp del]
declare distinct_loop.simps [simp del]

subsection \<open>The heap loops are the list walk\<close>

lemma cohere_loop_iter:
  "cohere_loop r m i acc h = (avg_iter m (h r) (drop i (h r)) acc, h)"
proof (induction r m i acc h rule: cohere_loop.induct)
  case (1 r m i acc h)
  show ?case
  proof (cases "i < length (h r)")
    case True
    then have d: "drop i (h r) = (h r ! i) # drop (Suc i) (h r)"
      by (simp add: Cons_nth_drop_Suc)
    show ?thesis
      using True 1 by (subst cohere_loop.simps) (simp add: d split: sum.splits)
  next
    case False
    then show ?thesis by (subst cohere_loop.simps) simp
  qed
qed

lemma distinct_loop_iter:
  "distinct_loop r1 r2 m i acc h = (avg_iter m (h r2) (drop i (h r1)) acc, h)"
proof (induction r1 r2 m i acc h rule: distinct_loop.induct)
  case (1 r1 r2 m i acc h)
  show ?case
  proof (cases "i < length (h r1)")
    case True
    then have d: "drop i (h r1) = (h r1 ! i) # drop (Suc i) (h r1)"
      by (simp add: Cons_nth_drop_Suc)
    show ?thesis
      using True 1 by (subst distinct_loop.simps) (simp add: d split: sum.splits)
  next
    case False
    then show ?thesis by (subst distinct_loop.simps) simp
  qed
qed

lemma dict_cohere_iter:
  "dict_cohere r m h =
     (case avg_iter m (h r) (h r) (PyInt 0) of
        Inl e \<Rightarrow> Inl e
      | Inr s \<Rightarrow> (case truediv_len s (length (h r)) of Inl e \<Rightarrow> Inl e | Inr q \<Rightarrow> Inr (one_minus q)), h)"
  by (simp add: dict_cohere_def cohere_loop_iter split: sum.splits)

lemma dict_distinct_iter:
  "dict_distinct r1 r2 m h =
     (case avg_iter m (h r2) (h r1) (PyInt 0) of
        Inl e \<Rightarrow> Inl e
      | Inr s \<Rightarrow> truediv_len s (length (h r1)), h)"
  by (simp add: dict_distinct_def distinct_loop_iter split: sum.splits)

lemma np_add_commute: "np_add a b = np_add b a"
  by (cases a; cases b) simp_all

lemma np_add_assoc: "np_add (np_add a b) c = np_add a (np_add b c)"
  by (cases a; cases b; cases c) simp_all

lemma np_add_zero [simp]: "np_add (Finite 0) a = a"
  by (cases a) simp_all

lemma other_rows_known:
  "known m ws \<Longrightarrow> other_rows m ws = Inr (map (\<lambda>w. the (vocab m w)) ws)"
  by (induction ws) (auto simp: known_def)

lemma distances_known:
  assumes "vocab m w = Some u" and "others \<noteq> []" and "known m others"
  shows "distances m w others = Inr (map (distance m w) others)"
proof -
  have "map (np_sub 1) (cosine_similarities u (map (\<lambda>w. the (vocab m w)) others))
          = map (distance m w) others"
    using assms(1,3)
    by (induction others)
       (auto simp: known_def cosine_similarities_def distance_def cosine_distance_def)
  then show ?thesis
    using assms by (simp add: distances_def word_vec_def other_rows_known)
qed

lemma avg_iter_known:
  assumes "others \<noteq> []" and "known m others"
  shows "known m ws \<Longrightarrow>
         avg_iter m others ws acc =
           Inr (foldl add_np acc (map (\<lambda>w. mean_distance m w others) ws))"
proof (induction ws arbitrary: acc)
  case Nil
  then show ?case by simp
next
  case (Cons w ws)
  from Cons.prems obtain u where u: "vocab m w = Some u" and ws: "known m ws"
    by (auto simp: known_def)
  show ?case
    using Cons.IH [OF ws] distances_known [OF u assms]
    by (simp add: mean_distance_def np_mean_def)
qed

lemma foldl_add_np_NpFloat:
  "foldl add_np (NpFloat a) xs = NpFloat (np_add a (np_sum xs))"
proof (induction xs arbitrary: a)
  case Nil
  then show ?case by (cases a) simp_all
next
  case (Cons x xs)
  then show ?case by (simp add: np_add_assoc)
qed

lemma foldl_add_np_zero:
  "xs \<noteq> [] \<Longrightarrow> foldl add_np (PyInt 0) xs = NpFloat (np_sum xs)"
  by (cases xs) (simp_all add: foldl_add_np_NpFloat)

lemma dict_distinct_known:
  assumes "h r1 \<noteq> []" and "h r2 \<noteq> []" and "known m (h r1)" and "known m (h r2)"
  shows "dict_distinct r1 r2 m h = (Inr (NpFloat (spec_distinct m (h r1) (h r2))), h)"
  using assms
  by (simp add: dict_distinct_iter avg_iter_known foldl_add_np_zero spec_distinct_def np_mean_def)

lemma dict_cohere_known:
  assumes "h r \<noteq> []" and "known m (h r)"
  shows "dict_cohere r m h = (Inr (NpFloat (spec_cohere m (h r))), h)"
  using assms
  by (simp add: dict_cohere_iter avg_iter_known foldl_add_np_zero spec_cohere_def np_mean_def)

subsection \<open>Frame and determinism\<close>

text \<open>
  C5. Neither scorer mutates an input list: whatever the arguments, and whether the call
  returns or raises, the heap after the call is the heap before it, so every list has the
  same length, the same elements and the same order. This holds also when both arguments
  of \<open>dict_distinct\<close> are one list.
\<close>

theorem scorers_leave_heap:
  "snd (dict_cohere thisdict wem_model h) = h \<and>
   snd (dict_distinct dict1 dict2 wem_model h) = h"
  by (simp add: dict_cohere_iter dict_distinct_iter)

text \<open>
  C8. Both scorers are deterministic: a second call with the same arguments, made in the
  heap the first call leaves, returns the result (or raises the exception) of the first.
\<close>

theorem scorers_repeatable:
  "fst (dict_cohere thisdict wem_model (snd (dict_cohere thisdict wem_model h))) =
     fst (dict_cohere thisdict wem_model h) \<and>
   fst (dict_distinct dict1 dict2 wem_model (snd (dict_distinct dict1 dict2 wem_model h))) =
     fst (dict_distinct dict1 dict2 wem_model h)"
  by (simp add: dict_cohere_iter dict_distinct_iter)

subsection \<open>Sums and means do not depend on the order\<close>








subsection \<open>The scorers compute the means of the specification\<close>



text \<open>
  C2. For non-empty lists \<open>dict1\<close> and \<open>dict2\<close> of known terms, \<open>dict_distinct\<close> returns
  the mean, over the terms of \<open>dict1\<close>, of each term's mean cosine distance to every
  term of \<open>dict2\<close>: the inner sums are divided by the length of \<open>dict2\<close>, the outer sum
  by the length of \<open>dict1\<close>, and the value is returned as it is, a distance, with no
  conversion to a similarity.
\<close>

theorem dict_distinct_mean_of_means:
  assumes "h dict1 = ts1" and "h dict2 = ts2" and "ts1 \<noteq> []" and "ts2 \<noteq> []"
    and "known m ts1" and "known m ts2"
  shows "fst (dict_distinct dict1 dict2 m h) =
           Inr (NpFloat
             (np_div (np_sum (map (\<lambda>s. np_div (np_sum (map (distance m s) ts2))
                                        (of_nat (length ts2))) ts1))
                (of_nat (length ts1))))"
  using assms dict_distinct_known [of h dict1 dict2 m]
  by (simp add: spec_distinct_def mean_distance_def np_mean_def)

theorem dict_distinct_mean_of_means_witness:
  "fst (dict_distinct 0 1 [(''a'', [1, 0]), (''b'', [0, 1]), (''c'', [0, 2])]
          (\<lambda>r. if r = 0 then [''a'', ''b''] else [''c''])) =
     Inr (NpFloat (Finite (1 / 2)))"
  using dict_distinct_mean_of_means
    [of "\<lambda>r. if r = 0 then [''a'', ''b''] else [''c'']" 0 "[''a'', ''b'']" 1 "[''c'']"
        "[(''a'', [1, 0]), (''b'', [0, 1]), (''c'', [0, 2])]"]
  by (simp add: known_def vocab_def distance_def cosine_distance_def dot_def norm_vec_def)

text \<open>
  C9. For a non-empty list of known terms, both \<open>dict_cohere\<close> on the list and
  \<open>dict_distinct\<close> of the list against itself return a number, and the coherence is one
  minus that distinctiveness.
\<close>

theorem cohere_is_one_minus_self_distinct:
  assumes "h thisdict = ts" and "ts \<noteq> []" and "known m ts"
  shows "\<exists>d. fst (dict_distinct thisdict thisdict m h) = Inr (NpFloat d) \<and>
             fst (dict_cohere thisdict m h) = Inr (NpFloat (np_sub 1 d))"
  using assms
  by (simp add: dict_cohere_iter dict_distinct_iter avg_iter_known foldl_add_np_zero)

theorem cohere_is_one_minus_self_distinct_witness:
  "\<exists>d. fst (dict_distinct 0 0 [(''a'', [1, 0]), (''b'', [0, 1])] (\<lambda>_. [''a'', ''b''])) =
          Inr (NpFloat d) \<and>
       fst (dict_cohere 0 [(''a'', [1, 0]), (''b'', [0, 1])] (\<lambda>_. [''a'', ''b''])) =
          Inr (NpFloat (np_sub 1 d))"
  using cohere_is_one_minus_self_distinct
    [of "\<lambda>_. [''a'', ''b'']" 0 "[''a'', ''b'']" "[(''a'', [1, 0]), (''b'', [0, 1])]"]
  by (simp add: known_def vocab_def)

subsection \<open>Permutations\<close>



subsection \<open>Symmetry of the distinctiveness\<close>













subsection \<open>Cosine similarity: bounds\<close>

lemma dot_Nil [simp]: "dot [] v = 0" "dot v [] = 0"
  by (simp_all add: dot_def)

lemma dot_Cons [simp]: "dot (x # xs) (y # ys) = x * y + dot xs ys"
  by (simp add: dot_def)




















lemma nonzero_known: "nonzero m ts \<Longrightarrow> known m ts"
  by (auto simp: nonzero_def known_def list_all_iff split: option.splits)





subsection \<open>The range of the coherence\<close>





subsection \<open>A list of one term\<close>




subsection \<open>When the scorers fail\<close>

lemma first_unknown_None: "first_unknown m ts = None \<longleftrightarrow> known m ts"
  by (auto simp: first_unknown_def known_def find_None_iff list_all_iff)

lemma first_unknown_Cons:
  "first_unknown m (w # ws) = (if vocab m w = None then Some w else first_unknown m ws)"
  by (simp add: first_unknown_def)

lemma first_unknown_append:
  "first_unknown m (xs @ ys) =
     (case first_unknown m xs of Some w \<Rightarrow> Some w | None \<Rightarrow> first_unknown m ys)"
  by (induction xs) (simp_all add: first_unknown_def)

lemma other_rows_unknown:
  "first_unknown m ws = Some u \<Longrightarrow> other_rows m ws = Inl (KeyError u)"
  by (induction ws) (auto simp: first_unknown_def split: if_splits)

lemma distances_no_word:
  "vocab m w = None \<Longrightarrow> distances m w others = Inl (KeyError w)"
  by (simp add: distances_def word_vec_def)

lemma distances_unknown_other:
  assumes "vocab m w = Some v" and "first_unknown m others = Some u"
  shows "distances m w others = Inl (KeyError u)"
proof -
  have "others \<noteq> []"
    using assms(2) by (auto simp: first_unknown_def)
  then show ?thesis
    using assms by (simp add: distances_def word_vec_def other_rows_unknown)
qed

lemma avg_iter_unknown_word:
  assumes "first_unknown m others = None"
  shows "first_unknown m ws = Some u \<Longrightarrow> avg_iter m others ws acc = Inl (KeyError u)"
proof (induction ws arbitrary: acc)
  case Nil
  then show ?case by (simp add: first_unknown_def)
next
  case (Cons w ws)
  show ?case
  proof (cases "vocab m w")
    case None
    then show ?thesis
      using Cons.prems by (simp add: first_unknown_Cons distances_no_word)
  next
    case (Some v)
    then have u: "first_unknown m ws = Some u"
      using Cons.prems by (simp add: first_unknown_Cons)
    have "\<exists>ds. distances m w others = Inr ds"
    proof (cases "others = []")
      case True
      then show ?thesis using Some by (simp add: distances_def word_vec_def)
    next
      case False
      then show ?thesis
        using Some assms distances_known [of m w v others] by (simp add: first_unknown_None)
    qed
    then show ?thesis
      using Cons.IH [OF u] by auto
  qed
qed

lemma avg_iter_empty_others:
  "known m ws \<Longrightarrow> avg_iter m [] ws acc = Inr (foldl add_np acc (map (\<lambda>_. NonFinite) ws))"
proof (induction ws arbitrary: acc)
  case Nil
  show ?case by simp
next
  case (Cons w ws)
  from Cons.prems obtain v where v: "vocab m w = Some v" and ws: "known m ws"
    by (auto simp: known_def)
  obtain ds where ds: "distances m w [] = Inr ds"
    using v by (simp add: distances_def word_vec_def)
  have "np_div (np_sum ds) 0 = NonFinite"
    by (cases "np_sum ds") simp_all
  then show ?case
    using Cons.IH [OF ws] ds by simp
qed

lemma np_sum_NonFinite: "ws \<noteq> [] \<Longrightarrow> np_sum (map (\<lambda>_. NonFinite) ws) = NonFinite"
  by (cases ws) simp_all

lemma dict_cohere_outcome:
  "fst (dict_cohere thisdict m h) =
     (if h thisdict = [] then Inl ZeroDivisionError
      else case first_unknown m (h thisdict) of
             Some w \<Rightarrow> Inl (KeyError w)
           | None \<Rightarrow> Inr (NpFloat (spec_cohere m (h thisdict))))"
proof (cases "h thisdict = []")
  case True
  then show ?thesis by (simp add: dict_cohere_iter)
next
  case ne: False
  show ?thesis
  proof (cases "first_unknown m (h thisdict)")
    case None
    then have "known m (h thisdict)"
      by (simp add: first_unknown_None)
    then show ?thesis
      using ne None by (simp add: dict_cohere_known)
  next
    case (Some u)
    obtain w ws where l: "h thisdict = w # ws"
      using ne by (cases "h thisdict") auto
    have "avg_iter m (h thisdict) (h thisdict) (PyInt 0) = Inl (KeyError u)"
    proof (cases "vocab m w")
      case None
      then show ?thesis
        using Some l by (simp add: first_unknown_Cons distances_no_word)
    next
      case v: (Some v)
      have "distances m w (h thisdict) = Inl (KeyError u)"
        using v Some by (rule distances_unknown_other)
      then show ?thesis
        using l by simp
    qed
    then show ?thesis
      using ne Some by (simp add: dict_cohere_iter)
  qed
qed

lemma dict_distinct_outcome:
  "fst (dict_distinct dict1 dict2 m h) =
     (if h dict1 = [] then Inl ZeroDivisionError
      else case first_unknown m (hd (h dict1) # h dict2 @ tl (h dict1)) of
             Some w \<Rightarrow> Inl (KeyError w)
           | None \<Rightarrow>
               Inr (NpFloat (if h dict2 = [] then NonFinite
                             else spec_distinct m (h dict1) (h dict2))))"
proof (cases "h dict1")
  case Nil
  then show ?thesis by (simp add: dict_distinct_iter)
next
  case l: (Cons w ws)
  show ?thesis
  proof (cases "vocab m w")
    case None
    then show ?thesis
      using l by (simp add: dict_distinct_iter first_unknown_Cons distances_no_word)
  next
    case v: (Some v)
    show ?thesis
    proof (cases "first_unknown m (h dict2)")
      case (Some u)
      have "distances m w (h dict2) = Inl (KeyError u)"
        using v Some by (rule distances_unknown_other)
      then show ?thesis
        using l v Some
        by (simp add: dict_distinct_iter first_unknown_Cons first_unknown_append)
    next
      case k2: None
      show ?thesis
      proof (cases "first_unknown m ws")
        case (Some u)
        have "first_unknown m (w # ws) = Some u"
          using v Some by (simp add: first_unknown_Cons)
        then have "avg_iter m (h dict2) (w # ws) (PyInt 0) = Inl (KeyError u)"
          using k2 by (intro avg_iter_unknown_word)
        then show ?thesis
          using l v k2 Some
          by (simp add: dict_distinct_iter first_unknown_Cons first_unknown_append
                del: avg_iter.simps)
      next
        case k1: None
        have kn: "known m (h dict1)" "known m (h dict2)"
          using l v k1 k2 by (simp_all add: first_unknown_None [symmetric] first_unknown_Cons)
        have fu: "first_unknown m (hd (h dict1) # h dict2 @ tl (h dict1)) = None"
          using l v k1 k2 by (simp add: first_unknown_Cons first_unknown_append)
        show ?thesis
        proof (cases "h dict2 = []")
          case True
          have "avg_iter m [] (h dict1) (PyInt 0) =
                  Inr (foldl add_np (PyInt 0) (map (\<lambda>_. NonFinite) (h dict1)))"
            using kn(1) by (rule avg_iter_empty_others)
          then show ?thesis
            using True l fu
            by (simp add: dict_distinct_iter foldl_add_np_NpFloat del: avg_iter.simps)
        next
          case False
          then show ?thesis
            using l kn fu by (simp add: dict_distinct_known del: avg_iter.simps)
        qed
      qed
    qed
  qed
qed

text \<open>
  C4, as stated, has \<open>dict_distinct\<close> raise for an empty list in either position. With a
  non-empty \<open>dict1\<close> of known terms and an empty \<open>dict2\<close> it raises nothing: the inner
  division by \<^verbatim>\<open>len(dict2)\<close> divides a numpy float, which yields \<^verbatim>\<open>nan\<close> or
  \<^verbatim>\<open>inf\<close>, and the call returns that value.
\<close>

theorem dict_distinct_empty_dict2_returns:
  "(\<lambda>r. if r = 0 then [''a''] else []) (1 :: nat) = [] \<and>
   fst (dict_distinct 0 1 [(''a'', [1, 0])] (\<lambda>r. if r = 0 then [''a''] else [])) =
     Inr (NpFloat NonFinite)"
  by (simp add: dict_distinct_iter distances_def word_vec_def vocab_def vectors_def
        cosine_similarities_def dot_def norm_vec_def)

text \<open>
  C4, amended. \<open>dict_cohere\<close> raises \<^verbatim>\<open>ZeroDivisionError\<close> exactly when its list is
  empty, and otherwise \<^verbatim>\<open>KeyError\<close> for the first term of the list that the vocabulary
  lacks, if there is one; with a non-empty list of known terms it returns.
  \<open>dict_distinct\<close> raises \<^verbatim>\<open>ZeroDivisionError\<close> exactly when \<open>dict1\<close> is empty, whatever
  \<open>dict2\<close> holds; otherwise it raises \<^verbatim>\<open>KeyError\<close> for the first unknown term in the
  order of the lookups (the first term of \<open>dict1\<close>, then \<open>dict2\<close>, then the rest of
  \<open>dict1\<close>), if there is one; otherwise it returns, and when \<open>dict2\<close> is empty what it
  returns is not a finite number. No exception is caught on the way.
\<close>

theorem scorer_outcomes:
  "fst (dict_cohere thisdict m h) =
     (if h thisdict = [] then Inl ZeroDivisionError
      else case first_unknown m (h thisdict) of
             Some w \<Rightarrow> Inl (KeyError w)
           | None \<Rightarrow> Inr (NpFloat (spec_cohere m (h thisdict)))) \<and>
   fst (dict_distinct dict1 dict2 m h) =
     (if h dict1 = [] then Inl ZeroDivisionError
      else case first_unknown m (hd (h dict1) # h dict2 @ tl (h dict1)) of
             Some w \<Rightarrow> Inl (KeyError w)
           | None \<Rightarrow>
               Inr (NpFloat (if h dict2 = [] then NonFinite
                             else spec_distinct m (h dict1) (h dict2))))"
  using dict_cohere_outcome [of thisdict m h] dict_distinct_outcome [of dict1 dict2 m h]
  by simp

end
